theory Spec2Isabelle
  imports Complex_Main "HOL-Library.AList" "HOL-Library.Sublist"
begin

section \<open>JavaScript numbers\<close>

text \<open>
  The retrieval code computes with JavaScript numbers. Finite values are modelled as
  reals (rounding and overflow are not modelled); the three special values that the
  code can produce from finite inputs are kept, because they decide branches:
  \<open>-Infinity\<close> is the initial \<open>bestScore\<close> of the MMR loop and \<open>NaN\<close> is what
  \<open>cosineSimilarity\<close> returns for a zero vector (\<open>0 / 0\<close>). Every comparison with
  \<open>NaN\<close> is false, and \<open>Math.max\<close> returns \<open>NaN\<close> as soon as one argument is.
  All divisors in the modelled code are non-negative quantities (norm products and
  counts), so a zero divisor is \<open>+0\<close>.
\<close>

datatype jsnum = NaN | NegInf | Num real | PosInf

fun js_neg :: "jsnum \<Rightarrow> jsnum" where
  "js_neg NaN = NaN"
| "js_neg NegInf = PosInf"
| "js_neg PosInf = NegInf"
| "js_neg (Num a) = Num (- a)"

fun js_add :: "jsnum \<Rightarrow> jsnum \<Rightarrow> jsnum" where
  "js_add (Num a) (Num b) = Num (a + b)"
| "js_add NaN _ = NaN"
| "js_add _ NaN = NaN"
| "js_add PosInf NegInf = NaN"
| "js_add NegInf PosInf = NaN"
| "js_add PosInf _ = PosInf"
| "js_add _ PosInf = PosInf"
| "js_add NegInf _ = NegInf"
| "js_add _ NegInf = NegInf"

definition js_sub :: "jsnum \<Rightarrow> jsnum \<Rightarrow> jsnum" where
  "js_sub a b = js_add a (js_neg b)"

fun js_mul :: "jsnum \<Rightarrow> jsnum \<Rightarrow> jsnum" where
  "js_mul (Num a) (Num b) = Num (a * b)"
| "js_mul NaN _ = NaN"
| "js_mul _ NaN = NaN"
| "js_mul PosInf (Num b) = (if b = 0 then NaN else if 0 < b then PosInf else NegInf)"
| "js_mul NegInf (Num b) = (if b = 0 then NaN else if 0 < b then NegInf else PosInf)"
| "js_mul (Num a) PosInf = (if a = 0 then NaN else if 0 < a then PosInf else NegInf)"
| "js_mul (Num a) NegInf = (if a = 0 then NaN else if 0 < a then NegInf else PosInf)"
| "js_mul PosInf PosInf = PosInf"
| "js_mul NegInf NegInf = PosInf"
| "js_mul PosInf NegInf = NegInf"
| "js_mul NegInf PosInf = NegInf"

fun js_div :: "jsnum \<Rightarrow> jsnum \<Rightarrow> jsnum" where
  "js_div (Num a) (Num b) =
     (if b \<noteq> 0 then Num (a / b)
      else if a = 0 then NaN else if 0 < a then PosInf else NegInf)"
| "js_div NaN _ = NaN"
| "js_div _ NaN = NaN"
| "js_div (Num a) _ = Num 0"
| "js_div PosInf (Num b) = (if 0 \<le> b then PosInf else NegInf)"
| "js_div NegInf (Num b) = (if 0 \<le> b then NegInf else PosInf)"
| "js_div _ _ = NaN"

fun js_max :: "jsnum \<Rightarrow> jsnum \<Rightarrow> jsnum" where
  "js_max (Num a) (Num b) = Num (max a b)"
| "js_max NaN _ = NaN"
| "js_max _ NaN = NaN"
| "js_max PosInf _ = PosInf"
| "js_max _ PosInf = PosInf"
| "js_max NegInf b = b"
| "js_max a NegInf = a"

fun js_min :: "jsnum \<Rightarrow> jsnum \<Rightarrow> jsnum" where
  "js_min (Num a) (Num b) = Num (min a b)"
| "js_min NaN _ = NaN"
| "js_min _ NaN = NaN"
| "js_min NegInf _ = NegInf"
| "js_min _ NegInf = NegInf"
| "js_min PosInf b = b"
| "js_min a PosInf = a"

fun js_gt :: "jsnum \<Rightarrow> jsnum \<Rightarrow> bool" where
  "js_gt (Num a) (Num b) = (b < a)"
| "js_gt NaN _ = False"
| "js_gt _ NaN = False"
| "js_gt _ PosInf = False"
| "js_gt PosInf _ = True"
| "js_gt NegInf _ = False"
| "js_gt (Num a) NegInf = True"

section \<open>JavaScript strings\<close>

text \<open>
  Strings are lists of characters. \<open>trim\<close> strips the ASCII white space at both ends,
  \<open>includes\<close> is the test for a contiguous substring, and \<open>natToString\<close> is the decimal
  numeral that a template literal prints for a count.
\<close>

definition isWhitespace :: "char \<Rightarrow> bool" where
  "isWhitespace c \<longleftrightarrow> c \<in> set [CHR '' '', CHR 0x09, CHR 0x0A, CHR 0x0B, CHR 0x0C, CHR 0x0D]"

definition trim :: "string \<Rightarrow> string" where
  "trim s = rev (dropWhile isWhitespace (rev (dropWhile isWhitespace s)))"

definition stringIncludes :: "string \<Rightarrow> string \<Rightarrow> bool" where
  "stringIncludes s searchString = sublist searchString s"

fun natToString :: "nat \<Rightarrow> string" where
  "natToString n =
     (if n < 10 then [''0123456789'' ! n]
      else natToString (n div 10) @ [''0123456789'' ! (n mod 10)])"

declare natToString.simps [simp del]

section \<open>Chunks\<close>

text \<open>
  A chunk is a JavaScript object; the record lists every field that the modelled
  functions read or write, optional fields as options (\<open>None\<close> is \<open>undefined\<close> or
  \<open>null\<close>, both falsy). \<open>content\<close> and \<open>text\<close> are strings whose empty value stands
  for a missing field as well (the code only tests them for truthiness). Characters are
  Isabelle's \<open>char\<close>. An object spread with an overriding field is a record update.
\<close>

record chunk_metadata =
  meta_mmrScore :: "jsnum option"
  tokenCount :: "nat option"
  contentLength :: "nat option"
  meta_retrievalMethod :: "string option"
  rerankModel :: "string option"
  meta_rerankScore :: "real option"
  originalSimilarity :: "real option"
  scoreImprovement :: "real option"

record chunk =
  id' :: string
  content :: string
  text' :: string
  source :: string
  title :: string
  section' :: string
  position :: int
  similarity :: real
  embedding :: "real list option"
  queryEmbedding :: "real list option"
  mmrScore :: "jsnum option"
  rank :: "nat option"
  metadata :: "chunk_metadata option"
  retrievalMethod :: "string option"
  rerankScore :: "real option"
  rerankRank :: "nat option"
  originalRank :: "nat option"
  rankImprovement :: "int option"
  rrfScore :: "real option"
  denseRank :: "nat option"
  sparseRank :: "nat option"

section \<open>EmbeddingService.cosineSimilarity\<close>

text \<open>The loop of \<open>cosineSimilarity\<close>: the three running sums over the common index range.\<close>

fun cosineSums :: "real list \<Rightarrow> real list \<Rightarrow> real \<times> real \<times> real \<Rightarrow> real \<times> real \<times> real" where
  "cosineSums (a # as) (b # bs) (dotProduct, norm1, norm2) =
     cosineSums as bs (dotProduct + a * b, norm1 + a * a, norm2 + b * b)"
| "cosineSums _ _ acc = acc"

definition cosineSimilarity :: "real list \<Rightarrow> real list \<Rightarrow> string + jsnum" where
  "cosineSimilarity embedding1 embedding2 =
     (if length embedding1 \<noteq> length embedding2
      then Inl ''Embeddings must have the same dimensions''
      else (case cosineSums embedding1 embedding2 (0, 0, 0) of
              (dotProduct, norm1, norm2) \<Rightarrow>
                Inr (js_div (Num dotProduct) (Num (sqrt norm1 * sqrt norm2)))))"

section \<open>VectorRetriever.applyMMR\<close>

text \<open>
  \<open>remaining.reduce((best, current) => current.similarity > best.similarity ? current : best)\<close>
  without an initial value: a \<open>TypeError\<close> on the empty array, otherwise a left fold
  that starts from the first element.
\<close>

definition mostRelevantOf :: "chunk list \<Rightarrow> string + chunk" where
  "mostRelevantOf remaining =
     (case remaining of
        [] \<Rightarrow> Inl ''Reduce of empty array with no initial value''
      | first # rest \<Rightarrow>
          Inr (fold (\<lambda>current best.
                 if similarity current > similarity best then current else best) rest first))"

text \<open>
  The inner loop over \<open>selected\<close>: \<open>maxSimilarityToSelected\<close> starts at \<open>0\<close> and is
  raised by the cosine similarity of every pair in which both embeddings are truthy.
  An exception of \<open>cosineSimilarity\<close> leaves the loop.
\<close>

fun maxSimilarityLoop :: "chunk \<Rightarrow> chunk list \<Rightarrow> jsnum \<Rightarrow> string + jsnum" where
  "maxSimilarityLoop candidate [] maxSimilarityToSelected = Inr maxSimilarityToSelected"
| "maxSimilarityLoop candidate (selectedDoc # rest) maxSimilarityToSelected =
     (case (embedding candidate, embedding selectedDoc) of
        (Some e1, Some e2) \<Rightarrow>
          (case cosineSimilarity e1 e2 of
             Inl err \<Rightarrow> Inl err
           | Inr sim \<Rightarrow> maxSimilarityLoop candidate rest (js_max maxSimilarityToSelected sim))
      | _ \<Rightarrow> maxSimilarityLoop candidate rest maxSimilarityToSelected)"

definition mmrScoreOf :: "real \<Rightarrow> chunk list \<Rightarrow> chunk \<Rightarrow> string + jsnum" where
  "mmrScoreOf lambda selected candidate =
     (case maxSimilarityLoop candidate selected (Num 0) of
        Inl err \<Rightarrow> Inl err
      | Inr maxSimilarityToSelected \<Rightarrow>
          Inr (js_sub (js_mul (Num lambda) (Num (similarity candidate)))
                      (js_mul (Num (1 - lambda)) maxSimilarityToSelected)))"

text \<open>
  The \<open>for (const candidate of remaining)\<close> loop, with the two variables
  \<open>bestCandidate\<close> (initially \<open>null\<close>) and \<open>bestScore\<close> (initially \<open>-Infinity\<close>).
\<close>

fun selectBest ::
  "real \<Rightarrow> chunk list \<Rightarrow> chunk list \<Rightarrow> chunk option \<times> jsnum \<Rightarrow> string + (chunk option \<times> jsnum)" where
  "selectBest lambda selected [] best = Inr best"
| "selectBest lambda selected (candidate # rest) (bestCandidate, bestScore) =
     (case mmrScoreOf lambda selected candidate of
        Inl err \<Rightarrow> Inl err
      | Inr mmrScore' \<Rightarrow>
          if js_gt mmrScore' bestScore
          then selectBest lambda selected rest (Some candidate, mmrScore')
          else selectBest lambda selected rest (bestCandidate, bestScore))"

lemma selectBest_mem:
  "selectBest lambda selected remaining (b, s) = Inr (Some c, s') \<Longrightarrow>
   c \<in> set remaining \<or> b = Some c"
  by (induction remaining arbitrary: b s) (auto split: sum.splits if_splits)

text \<open>
  The \<open>while (selected.length < finalK && remaining.length > 0)\<close> loop. The chosen
  object is pushed with its \<open>mmrScore\<close> and spliced out of \<open>remaining\<close> at its
  \<open>indexOf\<close>; the chosen object is the first of \<open>remaining\<close> that reaches the best
  score, so removing the first equal element removes it.
\<close>

function mmrLoop :: "real \<Rightarrow> int \<Rightarrow> chunk list \<Rightarrow> chunk list \<Rightarrow> string + chunk list" where
  "mmrLoop lambda finalK selected remaining =
     (if int (length selected) < finalK \<and> 0 < length remaining then
        (case selectBest lambda selected remaining (None, NegInf) of
           Inl err \<Rightarrow> Inl err
         | Inr (None, _) \<Rightarrow> Inr selected
         | Inr (Some bestCandidate, bestScore) \<Rightarrow>
             mmrLoop lambda finalK
               (selected @ [bestCandidate\<lparr>mmrScore := Some bestScore\<rparr>])
               (remove1 bestCandidate remaining))
      else Inr selected)"
  by pat_completeness auto
termination
proof (relation "measure (\<lambda>(lambda, finalK, selected, remaining). length remaining)")
  show "wf (measure (\<lambda>(lambda, finalK, selected, remaining). length remaining))"
    by simp
next
  fix lambda :: real and finalK :: int and selected remaining :: "chunk list"
    and x2 :: "chunk option \<times> jsnum" and x1 x2a x2b
  assume "int (length selected) < finalK \<and> 0 < length remaining"
    and "selectBest lambda selected remaining (None, NegInf) = Inr x2"
    and "(x1, x2a) = x2" and "x1 = Some x2b"
  then have "x2b \<in> set remaining"
    using selectBest_mem [of lambda selected remaining None NegInf x2b x2a] by auto
  then have "length (remove1 x2b remaining) < length remaining"
    using length_pos_if_in_set [of x2b remaining] by (simp add: length_remove1)
  then show "((lambda, finalK, selected @ [x2b\<lparr>mmrScore := Some x2a\<rparr>], remove1 x2b remaining),
              (lambda, finalK, selected, remaining))
             \<in> measure (\<lambda>(lambda, finalK, selected, remaining). length remaining)"
    by simp
qed

declare mmrLoop.simps [simp del]

definition applyMMR :: "real list \<Rightarrow> chunk list \<Rightarrow> int \<Rightarrow> real \<Rightarrow> string + chunk list" where
  "applyMMR queryEmbedding' candidates finalK lambda =
     (if int (length candidates) \<le> finalK then Inr candidates
      else (case mostRelevantOf candidates of
              Inl err \<Rightarrow> Inl err
            | Inr mostRelevant \<Rightarrow>
                mmrLoop lambda finalK [mostRelevant] (remove1 mostRelevant candidates)))"

section \<open>VectorRetriever: diversity score, average similarity and formatting\<close>

text \<open>
  The two nested index loops \<open>for i\<close>, \<open>for j = i + 1\<close>: the outer loop walks the
  list, the inner loop compares \<open>results[i]\<close> with every later element. The
  accumulator is the pair \<open>(totalSimilarity, comparisons)\<close>.
\<close>

fun diversityInner :: "chunk \<Rightarrow> chunk list \<Rightarrow> jsnum \<times> nat \<Rightarrow> string + (jsnum \<times> nat)" where
  "diversityInner ri [] acc = Inr acc"
| "diversityInner ri (rj # rest) (totalSimilarity, comparisons) =
     (case (embedding ri, embedding rj) of
        (Some e1, Some e2) \<Rightarrow>
          (case cosineSimilarity e1 e2 of
             Inl err \<Rightarrow> Inl err
           | Inr sim \<Rightarrow> diversityInner ri rest (js_add totalSimilarity sim, comparisons + 1))
      | _ \<Rightarrow> diversityInner ri rest (totalSimilarity, comparisons))"

fun diversityOuter :: "chunk list \<Rightarrow> jsnum \<times> nat \<Rightarrow> string + (jsnum \<times> nat)" where
  "diversityOuter [] acc = Inr acc"
| "diversityOuter (ri # rest) acc =
     (case diversityInner ri rest acc of
        Inl err \<Rightarrow> Inl err
      | Inr acc' \<Rightarrow> diversityOuter rest acc')"

definition calculateDiversityScore :: "chunk list \<Rightarrow> string + jsnum" where
  "calculateDiversityScore results' =
     (if length results' \<le> 1 then Inr (Num 1)
      else (case diversityOuter results' (Num 0, 0) of
              Inl err \<Rightarrow> Inl err
            | Inr (totalSimilarity, comparisons) \<Rightarrow>
                (let avgSimilarity =
                       (if 0 < comparisons
                        then js_div totalSimilarity (Num (real comparisons))
                        else Num 0)
                 in Inr (js_sub (Num 1) avgSimilarity))))"

text \<open>
  \<open>calculateAverageSimilarity\<close>: \<open>0\<close> for no results, otherwise the sum of the
  similarities (\<open>reduce\<close> from \<open>0\<close>) divided by the number of results.
\<close>

definition calculateAverageSimilarity :: "chunk list \<Rightarrow> real" where
  "calculateAverageSimilarity results' =
     (if length results' = 0 then 0
      else foldl (\<lambda>acc result. acc + similarity result) 0 results' / real (length results'))"

text \<open>
  \<open>formatResults\<close> builds a new object per result from the listed fields, with
  \<open>rank = index + 1\<close>. The token count is the number of pieces into which the content
  splits at runs of white space: one more than the number of maximal runs.
\<close>

fun whitespaceRuns :: "bool \<Rightarrow> string \<Rightarrow> nat" where
  "whitespaceRuns inRun [] = 0"
| "whitespaceRuns inRun (c # cs) =
     (if isWhitespace c
      then (if inRun then 0 else 1) + whitespaceRuns True cs
      else whitespaceRuns False cs)"

fun formatLoop :: "bool \<Rightarrow> nat \<Rightarrow> chunk list \<Rightarrow> chunk list" where
  "formatLoop includeMetadata index' [] = []"
| "formatLoop includeMetadata index' (result # rest) =
     \<lparr>id' = id' result, content = content result, text' = [], source = source result,
      title = title result, section' = section' result, position = position result,
      similarity = similarity result, embedding = None, queryEmbedding = None,
      mmrScore = None, rank = Some (index' + 1),
      metadata =
        (if includeMetadata
         then Some \<lparr>meta_mmrScore = mmrScore result,
                    tokenCount = Some (if content result \<noteq> []
                                       then 1 + whitespaceRuns False (content result) else 0),
                    contentLength = Some (if content result \<noteq> []
                                          then length (content result) else 0),
                    meta_retrievalMethod =
                      Some (case retrievalMethod result of
                              Some m \<Rightarrow> if m \<noteq> [] then m else ''vector_mmr''
                            | None \<Rightarrow> ''vector_mmr''),
                    rerankModel = None, meta_rerankScore = None, originalSimilarity = None,
                    scoreImprovement = None\<rparr>
         else None),
      retrievalMethod = None, rerankScore = None, rerankRank = None, originalRank = None,
      rankImprovement = None, rrfScore = None, denseRank = None, sparseRank = None\<rparr>
     # formatLoop includeMetadata (index' + 1) rest"

definition formatResults :: "chunk list \<Rightarrow> bool \<Rightarrow> chunk list" where
  "formatResults results' includeMetadata = formatLoop includeMetadata 0 results'"

section \<open>VectorRetriever.reciprocalRankFusion\<close>

text \<open>
  \<open>scoreMap\<close> is a JavaScript \<open>Map\<close> keyed by chunk id: an association list in
  insertion order, where \<open>set\<close> on a present key replaces the value in place and on a
  new key appends (\<open>AList.update\<close>). The damping constant \<open>k\<close> (default \<open>60\<close>) is a
  natural number, so no denominator \<open>k + index + 1\<close> vanishes. The first
  \<open>forEach\<close> scores the dense results.
\<close>

fun scoreDense ::
  "real \<Rightarrow> nat \<Rightarrow> nat \<Rightarrow> chunk list \<Rightarrow> (string \<times> chunk) list \<Rightarrow> (string \<times> chunk) list" where
  "scoreDense denseWeight k index [] scoreMap = scoreMap"
| "scoreDense denseWeight k index (result # rest) scoreMap =
     (let rrf = denseWeight / real (k + index + 1)
      in scoreDense denseWeight k (index + 1) rest
           (AList.update (id' result)
              (result\<lparr>rrfScore := Some rrf, denseRank := Some (index + 1), sparseRank := None\<rparr>)
              scoreMap))"

text \<open>
  The second \<open>forEach\<close> adds the sparse results: an id already in the map has its
  score raised in place (\<open>existing.rrfScore += rrf\<close>), a new id gets a new entry.
\<close>

fun addSparse ::
  "real \<Rightarrow> nat \<Rightarrow> nat \<Rightarrow> chunk list \<Rightarrow> (string \<times> chunk) list \<Rightarrow> (string \<times> chunk) list" where
  "addSparse sparseWeight k index [] scoreMap = scoreMap"
| "addSparse sparseWeight k index (result # rest) scoreMap =
     (let rrf = sparseWeight / real (k + index + 1)
      in addSparse sparseWeight k (index + 1) rest
           (case map_of scoreMap (id' result) of
              Some existing \<Rightarrow>
                AList.update (id' result)
                  (existing\<lparr>rrfScore := map_option (\<lambda>s. s + rrf) (rrfScore existing),
                            sparseRank := Some (index + 1)\<rparr>)
                  scoreMap
            | None \<Rightarrow>
                AList.update (id' result)
                  (result\<lparr>rrfScore := Some rrf, denseRank := None, sparseRank := Some (index + 1)\<rparr>)
                  scoreMap))"

text \<open>
  \<open>Array.from(scoreMap.values()).sort((a, b) => b.rrfScore - a.rrfScore)\<close>: a stable
  sort by descending score. Every value of the map carries a numeric score
  (lemma \<open>addSparse_ok\<close>), which \<open>rrfValue\<close> reads.
\<close>

definition rrfValue :: "chunk \<Rightarrow> real" where
  "rrfValue c = (case rrfScore c of Some s \<Rightarrow> s | None \<Rightarrow> 0)"

definition reciprocalRankFusion ::
  "chunk list \<Rightarrow> chunk list \<Rightarrow> real \<Rightarrow> real \<Rightarrow> nat \<Rightarrow> chunk list" where
  "reciprocalRankFusion denseResults sparseResults denseWeight sparseWeight k =
     sort_key (\<lambda>c. - rrfValue c)
       (map snd (addSparse sparseWeight k 0 sparseResults
                   (scoreDense denseWeight k 0 denseResults [])))"

section \<open>RerankingService: the call with retries\<close>

text \<open>
  The fields that the constructor sets; \<open>RERANK_CONFIG\<close> supplies the model name, the
  default \<open>topN\<close> and \<open>maxChunksLength\<close>.
\<close>

record rerankingService =
  model :: string
  defaultTopN :: int
  maxChunkLength :: nat
  retryAttempts :: nat
  retryDelay :: nat

definition RerankingService :: rerankingService where
  "RerankingService =
     \<lparr>model = ''rerank-english-v3.0'', defaultTopN = 5, maxChunkLength = 4096,
      retryAttempts = 3, retryDelay = 1000\<rparr>"

text \<open>
  The Cohere client is outside the repository. A request is the object passed to
  \<open>cohere.v2.rerank\<close> (documents by their \<open>text\<close>), a response item carries the
  0-based \<open>index\<close> into the documents, the \<open>relevanceScore\<close> and, when documents are
  returned, the \<open>document.text\<close>. The client itself is a parameter: for the number of
  the attempt and the request it either throws (\<open>Inl\<close> the error message) or answers
  with a response, after some elapsed milliseconds. The effects of a call to the service
  are recorded as a trace of API calls and delays.
\<close>

record rerankRequest =
  req_query :: string
  req_documents :: "string list"
  req_model :: string
  req_topN :: int
  req_returnDocuments :: bool

record rerankItem =
  index :: nat
  relevanceScore :: real
  document :: "string option"

record rerankResponse =
  results :: "rerankItem list"
  processingTime :: "nat option"

type_synonym cohereRerank = "nat \<Rightarrow> rerankRequest \<Rightarrow> string + (rerankResponse \<times> nat)"

datatype event = ApiCall nat | Delay nat

record callOptions =
  co_model :: "string option"
  co_topN :: "int option"
  co_returnDocuments :: "bool option"

text \<open>
  The argument of \<open>cohere.v2.rerank\<close>: \<open>options.model || this.model\<close>,
  \<open>options.topN || this.defaultTopN\<close>, \<open>options.returnDocuments !== false\<close>.
\<close>

definition rerankRequestOf :: "rerankingService \<Rightarrow> string \<Rightarrow> string list \<Rightarrow> callOptions \<Rightarrow> rerankRequest" where
  "rerankRequestOf svc query documents options =
     \<lparr>req_query = trim query,
      req_documents = documents,
      req_model = (case co_model options of
                     Some m \<Rightarrow> if m = [] then model svc else m
                   | None \<Rightarrow> model svc),
      req_topN = (case co_topN options of
                    Some n \<Rightarrow> if n = 0 then defaultTopN svc else n
                  | None \<Rightarrow> defaultTopN svc),
      req_returnDocuments = (co_returnDocuments options \<noteq> Some False)\<rparr>"

text \<open>
  The error raised once the attempts are used up, classified by the message of the
  last failure.
\<close>

definition cohereError :: "string \<Rightarrow> string" where
  "cohereError message =
     (if stringIncludes message ''rate limit''
      then ''Cohere API rate limit exceeded. Please try again later.''
      else if stringIncludes message ''invalid''
      then ''Invalid request to Cohere API. Check query and documents.''
      else ''Cohere API error: '' @ message)"

text \<open>
  \<open>callCohereRerank\<close> retries by calling itself with \<open>attempt + 1\<close> after a delay of
  \<open>retryDelay * attempt\<close> milliseconds, while \<open>attempt < retryAttempts\<close>.
\<close>

function callCohereRerank ::
  "rerankingService \<Rightarrow> cohereRerank \<Rightarrow> string \<Rightarrow> string list \<Rightarrow> callOptions \<Rightarrow> nat \<Rightarrow>
   event list \<Rightarrow> event list \<times> (string + rerankResponse)" where
  "callCohereRerank svc cohere query documents options attempt trace =
     (case cohere attempt (rerankRequestOf svc query documents options) of
        Inr (response, elapsed) \<Rightarrow>
          (trace @ [ApiCall attempt], Inr (response\<lparr>processingTime := Some elapsed\<rparr>))
      | Inl message \<Rightarrow>
          if attempt < retryAttempts svc
          then callCohereRerank svc cohere query documents options (attempt + 1)
                 (trace @ [ApiCall attempt, Delay (retryDelay svc * attempt)])
          else (trace @ [ApiCall attempt], Inl (cohereError message)))"
  by pat_completeness auto
termination
  by (relation "measure (\<lambda>(svc, cohere, query, documents, options, attempt, trace).
                  retryAttempts svc - attempt)") auto

declare callCohereRerank.simps [simp del]

section \<open>RerankingService: processing of the response\<close>

text \<open>
  \<open>prepareDocuments\<close>: the text of a chunk is \<open>chunk.content || chunk.text || ''\<close>, cut
  to \<open>maxChunkLength\<close> characters and followed by \<open>...\<close> when it is longer and truncation
  is on.
\<close>

definition prepareDocuments :: "rerankingService \<Rightarrow> chunk list \<Rightarrow> bool \<Rightarrow> string list" where
  "prepareDocuments svc chunks truncateChunks =
     map (\<lambda>chunk.
            let content0 = (if content chunk \<noteq> [] then content chunk else text' chunk)
            in if truncateChunks \<and> maxChunkLength svc < length content0
               then take (maxChunkLength svc) content0 @ ''...''
               else content0)
         chunks"

text \<open>
  \<open>processRerankResults\<close> maps every item of the response to the original chunk at the
  item's index, spread into a new object whose \<open>content\<close> is
  \<open>result.document?.text || originalChunk.content\<close>. An index outside the original
  chunks gives \<open>undefined\<close>, and reading a field of it raises a \<open>TypeError\<close> (on
  \<open>content\<close>, or on \<open>metadata\<close> when the returned text made the first read
  unnecessary).
\<close>

definition emptyMetadata :: chunk_metadata where
  "emptyMetadata =
     \<lparr>meta_mmrScore = None, tokenCount = None, contentLength = None,
      meta_retrievalMethod = None, rerankModel = None, meta_rerankScore = None,
      originalSimilarity = None, scoreImprovement = None\<rparr>"

definition rerankedChunkOf :: "rerankingService \<Rightarrow> bool \<Rightarrow> chunk \<Rightarrow> rerankItem \<Rightarrow> nat \<Rightarrow> chunk" where
  "rerankedChunkOf svc includeOriginalRank originalChunk result newRank =
     (let originalIndex = index result;
          rerankedChunk =
            originalChunk
              \<lparr>content := (case document result of
                             Some t \<Rightarrow> if t \<noteq> [] then t else content originalChunk
                           | None \<Rightarrow> content originalChunk),
               rerankScore := Some (relevanceScore result),
               rerankRank := Some (newRank + 1)\<rparr>;
          rerankedChunk =
            (if includeOriginalRank
             then rerankedChunk
                    \<lparr>originalRank := Some (originalIndex + 1),
                     rankImprovement := Some (int (originalIndex + 1) - int (newRank + 1))\<rparr>
             else rerankedChunk)
      in rerankedChunk
           \<lparr>metadata :=
              Some ((case metadata originalChunk of Some m \<Rightarrow> m | None \<Rightarrow> emptyMetadata)
                      \<lparr>rerankModel := Some (model svc),
                       meta_rerankScore := Some (relevanceScore result),
                       originalSimilarity := Some (similarity originalChunk),
                       scoreImprovement := Some (relevanceScore result - similarity originalChunk),
                       meta_retrievalMethod := Some ''reranked''\<rparr>)\<rparr>)"

fun processRerankLoop ::
  "rerankingService \<Rightarrow> chunk list \<Rightarrow> bool \<Rightarrow> nat \<Rightarrow> rerankItem list \<Rightarrow> string + chunk list" where
  "processRerankLoop svc originalChunks includeOriginalRank newRank [] = Inr []"
| "processRerankLoop svc originalChunks includeOriginalRank newRank (result # rest) =
     (if index result < length originalChunks
      then (case processRerankLoop svc originalChunks includeOriginalRank (newRank + 1) rest of
              Inl err \<Rightarrow> Inl err
            | Inr others \<Rightarrow>
                Inr (rerankedChunkOf svc includeOriginalRank
                       (originalChunks ! index result) result newRank # others))
      else if (case document result of Some t \<Rightarrow> t \<noteq> [] | None \<Rightarrow> False)
      then Inl ''Cannot read properties of undefined (reading metadata)''
      else Inl ''Cannot read properties of undefined (reading content)'')"

definition processRerankResults ::
  "rerankingService \<Rightarrow> rerankResponse \<Rightarrow> chunk list \<Rightarrow> bool \<Rightarrow> string + chunk list" where
  "processRerankResults svc rerankResponse originalChunks includeOriginalRank =
     processRerankLoop svc originalChunks includeOriginalRank 0 (results rerankResponse)"

text \<open>
  \<open>calculateRerankingStats\<close>. The averages divide by a length that is \<open>0\<close> for an empty
  result (\<open>NaN\<close>), and \<open>Math.max\<close>, \<open>Math.min\<close> of no arguments are
  \<open>-Infinity\<close>, \<open>Infinity\<close>. A reranked chunk has no top-level \<open>originalSimilarity\<close>
  (the field sits in its metadata), so \<open>chunk.originalSimilarity || 0\<close> is \<open>0\<close>.
\<close>

record rerankStats =
  avgRerankScore :: jsnum
  maxRerankScore :: jsnum
  minRerankScore :: jsnum
  avgOriginalSimilarity :: jsnum
  avgRankChange :: jsnum
  significantRankChanges :: nat
  avgScoreImprovement :: jsnum
  reorderingRate :: jsnum
  stats_processingTime :: nat

definition optNum :: "real option \<Rightarrow> jsnum" where
  "optNum x = (case x of Some r \<Rightarrow> Num r | None \<Rightarrow> NaN)"

definition jsSum :: "jsnum list \<Rightarrow> jsnum" where
  "jsSum xs = foldl js_add (Num 0) xs"

definition calculateRerankingStats :: "chunk list \<Rightarrow> chunk list \<Rightarrow> rerankStats" where
  "calculateRerankingStats originalChunks rerankedChunks =
     (let rerankScores = map (\<lambda>chunk. optNum (rerankScore chunk)) rerankedChunks;
          originalSimilarities = map (\<lambda>chunk. Num (similarity chunk)) originalChunks;
          rankChanges = map (\<lambda>chunk. case rankImprovement chunk of Some d \<Rightarrow> d | None \<Rightarrow> 0)
                          rerankedChunks;
          significantChanges = length (filter (\<lambda>change. 2 \<le> \<bar>change\<bar>) rankChanges);
          scoreImprovements = map (\<lambda>chunk. js_sub (optNum (rerankScore chunk)) (Num 0))
                                rerankedChunks
      in \<lparr>avgRerankScore = js_div (jsSum rerankScores) (Num (real (length rerankScores))),
          maxRerankScore = foldl js_max NegInf rerankScores,
          minRerankScore = foldl js_min PosInf rerankScores,
          avgOriginalSimilarity =
            js_div (jsSum originalSimilarities) (Num (real (length originalSimilarities))),
          avgRankChange =
            js_div (Num (real_of_int (foldl (\<lambda>sum change. sum + \<bar>change\<bar>) 0 rankChanges)))
                   (Num (real (length rankChanges))),
          significantRankChanges = significantChanges,
          avgScoreImprovement =
            js_div (jsSum scoreImprovements) (Num (real (length scoreImprovements))),
          reorderingRate =
            js_div (Num (real significantChanges)) (Num (real (length rerankedChunks))),
          stats_processingTime = 0\<rparr>)"

text \<open>
  \<open>validateInputs\<close> returns the message of the error it throws, if any.
\<close>

definition validateInputs :: "string \<Rightarrow> chunk list \<Rightarrow> int \<Rightarrow> string option" where
  "validateInputs query chunks topN =
     (if trim query = [] then Some ''Query is required and must be a non-empty string''
      else if chunks = [] then Some ''Chunks must be a non-empty array''
      else if topN < 1 \<or> 100 < topN then Some ''topN must be between 1 and 100''
      else (let invalidChunks = filter (\<lambda>chunk. content chunk = [] \<and> text' chunk = []) chunks
            in if 0 < length invalidChunks
               then Some (natToString (length invalidChunks) @ '' chunks missing content/text field'')
               else None))"

text \<open>
  \<open>rerankChunks\<close>: the options with their defaults, validation, the call with retries,
  the merge and the statistics. Every exception inside is rethrown as
  \<open>Reranking failed: ...\<close>.
\<close>

record rerankOptions =
  ro_topN :: "int option"
  ro_model :: "string option"
  ro_includeScores :: "bool option"
  ro_includeOriginalRank :: "bool option"
  ro_truncateChunks :: "bool option"

record rerankMetadata =
  rm_model :: string
  rm_topN :: int
  rm_stats :: rerankStats
  rm_processingTime :: nat

record rerankResult =
  rr_query :: string
  originalCount :: nat
  rerankedCount :: nat
  rr_results :: "chunk list"
  rr_metadata :: rerankMetadata

definition orDefault :: "'a option \<Rightarrow> 'a \<Rightarrow> 'a" where
  "orDefault given dflt = (case given of Some v \<Rightarrow> v | None \<Rightarrow> dflt)"

definition rerankChunks ::
  "rerankingService \<Rightarrow> cohereRerank \<Rightarrow> string \<Rightarrow> chunk list \<Rightarrow> rerankOptions \<Rightarrow>
   event list \<times> (string + rerankResult)" where
  "rerankChunks svc cohere query chunks options =
     (let topN = orDefault (ro_topN options) (defaultTopN svc);
          model' = orDefault (ro_model options) (model svc);
          includeOriginalRank = orDefault (ro_includeOriginalRank options) True;
          truncateChunks = orDefault (ro_truncateChunks options) True
      in case validateInputs query chunks topN of
           Some err \<Rightarrow> ([], Inl (''Reranking failed: '' @ err))
         | None \<Rightarrow>
             (let documents = prepareDocuments svc chunks truncateChunks
              in case callCohereRerank svc cohere query documents
                        \<lparr>co_model = Some model', co_topN = Some (min topN (int (length chunks))),
                         co_returnDocuments = Some True\<rparr> 1 [] of
                   (trace, Inl err) \<Rightarrow> (trace, Inl (''Reranking failed: '' @ err))
                 | (trace, Inr rerankResponse) \<Rightarrow>
                     (case processRerankResults svc rerankResponse chunks includeOriginalRank of
                        Inl err \<Rightarrow> (trace, Inl (''Reranking failed: '' @ err))
                      | Inr rerankedResults \<Rightarrow>
                          (let stats = calculateRerankingStats chunks rerankedResults
                           in (trace,
                               Inr \<lparr>rr_query = query,
                                    originalCount = length chunks,
                                    rerankedCount = length rerankedResults,
                                    rr_results = rerankedResults,
                                    rr_metadata =
                                      \<lparr>rm_model = model', rm_topN = topN, rm_stats = stats,
                                       rm_processingTime = stats_processingTime stats\<rparr>\<rparr>)))))"

section \<open>VectorRetriever: the retrieval pipelines\<close>

text \<open>
  The collaborators of the retriever are parameters: the embedding provider
  (\<open>embeddingService.generateEmbedding\<close>), the database function
  \<open>search_similar_documents\<close> called through \<open>supabase.rpc\<close> (\<open>Inl\<close> the message of the
  returned \<open>error\<close>), the Cohere client and the reranking service. An \<open>Inl\<close> of the
  embedding provider is the message of the exception it throws.
\<close>

record searchArgs =
  query_embedding :: "real list"
  match_threshold :: real
  match_count :: int
  filter_source :: "string option"
  filter_section :: "string option"

record services =
  generateEmbedding :: "string \<Rightarrow> string + real list"
  search_similar_documents :: "searchArgs \<Rightarrow> string + chunk list"
  cohereClient :: cohereRerank
  rerankingService :: rerankingService

text \<open>
  The \<open>options\<close> object of the pipelines (\<open>None\<close> is a field left out, which takes
  its default), the \<open>parameters\<close> echoed in the metadata, and the results: the object
  returned by \<open>retrieveWithMMR\<close> and the object returned by the complete pipeline, whose
  metadata is either that of the MMR stage or the merged envelope.
\<close>

record retrievalOptions =
  o_topK :: "int option"
  o_finalK :: "int option"
  o_rerankTopN :: "int option"
  o_lambda :: "real option"
  o_threshold :: "real option"
  o_source :: "string option"
  o_section :: "string option"
  o_includeMetadata :: "bool option"
  o_useReranking :: "bool option"

record retrievalParameters =
  p_topK :: int
  p_finalK :: int
  p_rerankTopN :: "int option"
  p_lambda :: real
  p_threshold :: real

record mmrMetadata =
  candidatesFound :: nat
  mm_finalResults :: nat
  mmrApplied :: bool
  mm_parameters :: retrievalParameters
  avgSimilarity :: "real option"
  diversityScore :: "jsnum option"

record pipelineMetadata =
  pipeline :: string
  pm_mmrMetadata :: mmrMetadata
  pm_rerankMetadata :: rerankMetadata
  totalCandidates :: nat
  pm_mmrResults :: nat
  pm_finalResults :: nat
  pm_avgRerankScore :: jsnum
  pm_reorderingRate :: jsnum
  pm_parameters :: retrievalParameters

record mmrRetrieval =
  mq_query :: string
  mq_results :: "chunk list"
  mq_metadata :: mmrMetadata

datatype resultMetadata = MmrMetadata mmrMetadata | PipelineMetadata pipelineMetadata

record retrievalResult =
  rq_query :: string
  rq_results :: "chunk list"
  rq_metadata :: resultMetadata

definition unchangedMmrResult :: "mmrRetrieval \<Rightarrow> retrievalResult" where
  "unchangedMmrResult r =
     \<lparr>rq_query = mq_query r, rq_results = mq_results r, rq_metadata = MmrMetadata (mq_metadata r)\<rparr>"

text \<open>
  The defaults set by the constructor of \<open>VectorRetriever\<close>.
\<close>

definition defaultTopK :: int where "defaultTopK = 50"

definition defaultFinalK :: int where "defaultFinalK = 10"

definition defaultLambda :: real where "defaultLambda = 7 / 10"

definition defaultThreshold :: real where "defaultThreshold = 3 / 10"

text \<open>
  \<open>retrieveTopKCandidates\<close>: an error returned by the database call is thrown as
  \<open>Database query failed: ...\<close>; every row keeps its embedding
  (\<open>candidate.embedding || null\<close>) and is given the query embedding.
\<close>

definition retrieveTopKCandidates ::
  "services \<Rightarrow> real list \<Rightarrow> int \<Rightarrow> real \<Rightarrow> string option \<Rightarrow> string option \<Rightarrow> string + chunk list" where
  "retrieveTopKCandidates env queryEmb topK threshold source' section'' =
     (case search_similar_documents env
             \<lparr>query_embedding = queryEmb, match_threshold = threshold, match_count = topK,
              filter_source = source', filter_section = section''\<rparr> of
        Inl message \<Rightarrow> Inl (''Database query failed: '' @ message)
      | Inr data \<Rightarrow>
          Inr (map (\<lambda>candidate. candidate\<lparr>embedding := embedding candidate,
                                            queryEmbedding := Some queryEmb\<rparr>) data))"

text \<open>
  \<open>retrieveWithMMR\<close>: embed, search, select, format. Every exception inside is rethrown
  as \<open>Vector retrieval failed: ...\<close>.
\<close>

definition retrieveWithMMR :: "services \<Rightarrow> string \<Rightarrow> retrievalOptions \<Rightarrow> string + mmrRetrieval" where
  "retrieveWithMMR env query options =
     (let topK = orDefault (o_topK options) defaultTopK;
          finalK = orDefault (o_finalK options) defaultFinalK;
          lambda = orDefault (o_lambda options) defaultLambda;
          threshold = orDefault (o_threshold options) defaultThreshold;
          includeMetadata = orDefault (o_includeMetadata options) True;
          parameters = \<lparr>p_topK = topK, p_finalK = finalK, p_rerankTopN = None,
                        p_lambda = lambda, p_threshold = threshold\<rparr>;
          outcome =
            (case generateEmbedding env query of
               Inl err \<Rightarrow> Inl err
             | Inr queryEmb \<Rightarrow>
                 (case retrieveTopKCandidates env queryEmb topK threshold
                         (o_source options) (o_section options) of
                    Inl err \<Rightarrow> Inl err
                  | Inr candidates \<Rightarrow>
                      if length candidates = 0
                      then Inr \<lparr>mq_query = query, mq_results = [],
                                mq_metadata =
                                  \<lparr>candidatesFound = 0, mm_finalResults = 0, mmrApplied = False,
                                   mm_parameters = parameters, avgSimilarity = None,
                                   diversityScore = None\<rparr>\<rparr>
                      else (case applyMMR queryEmb candidates finalK lambda of
                              Inl err \<Rightarrow> Inl err
                            | Inr mmrResults \<Rightarrow>
                                (case calculateDiversityScore mmrResults of
                                   Inl err \<Rightarrow> Inl err
                                 | Inr diversity \<Rightarrow>
                                     Inr \<lparr>mq_query = query,
                                          mq_results = formatResults mmrResults includeMetadata,
                                          mq_metadata =
                                            \<lparr>candidatesFound = length candidates,
                                             mm_finalResults = length mmrResults,
                                             mmrApplied = True,
                                             mm_parameters = parameters,
                                             avgSimilarity =
                                               Some (calculateAverageSimilarity mmrResults),
                                             diversityScore = Some diversity\<rparr>\<rparr>))))
      in case outcome of
           Inl err \<Rightarrow> Inl (''Vector retrieval failed: '' @ err)
         | Inr result \<Rightarrow> Inr result)"

text \<open>
  \<open>retrieveWithMMRAndRerank\<close> calls \<open>retrieveWithMMR\<close> with its resolved parameters and
  \<open>includeMetadata: false\<close>, returns that result as it is when reranking is off or
  nothing was found, and otherwise reranks. The whole body is one \<open>try\<close> block whose
  \<open>catch\<close> rethrows every exception as \<open>Complete retrieval failed: ...\<close>.
\<close>

definition mmrStageOptions :: "retrievalOptions \<Rightarrow> retrievalOptions" where
  "mmrStageOptions options =
     \<lparr>o_topK = Some (orDefault (o_topK options) defaultTopK),
      o_finalK = Some (orDefault (o_finalK options) defaultFinalK),
      o_rerankTopN = None,
      o_lambda = Some (orDefault (o_lambda options) defaultLambda),
      o_threshold = Some (orDefault (o_threshold options) defaultThreshold),
      o_source = o_source options,
      o_section = o_section options,
      o_includeMetadata = Some False,
      o_useReranking = None\<rparr>"

definition retrieveWithMMRAndRerank ::
  "services \<Rightarrow> string \<Rightarrow> retrievalOptions \<Rightarrow> event list \<times> (string + retrievalResult)" where
  "retrieveWithMMRAndRerank env query options =
     (let rerankTopN = orDefault (o_rerankTopN options) 5;
          includeMetadata = orDefault (o_includeMetadata options) True;
          useReranking = orDefault (o_useReranking options) True
      in case retrieveWithMMR env query (mmrStageOptions options) of
           Inl err \<Rightarrow> ([], Inl (''Complete retrieval failed: '' @ err))
         | Inr mmrResults \<Rightarrow>
             if \<not> useReranking \<or> length (mq_results mmrResults) = 0
             then ([], Inr (unchangedMmrResult mmrResults))
             else (case rerankChunks (rerankingService env) (cohereClient env) query
                          (mq_results mmrResults)
                          \<lparr>ro_topN = Some (min rerankTopN (int (length (mq_results mmrResults)))),
                           ro_model = None, ro_includeScores = None,
                           ro_includeOriginalRank = Some True, ro_truncateChunks = None\<rparr> of
                     (trace, Inl err) \<Rightarrow> (trace, Inl (''Complete retrieval failed: '' @ err))
                   | (trace, Inr rerankResults) \<Rightarrow>
                       (trace,
                        Inr \<lparr>rq_query = query,
                             rq_results = formatResults (rr_results rerankResults) includeMetadata,
                             rq_metadata = PipelineMetadata
                               \<lparr>pipeline = ''mmr_rerank'',
                                pm_mmrMetadata = mq_metadata mmrResults,
                                pm_rerankMetadata = rr_metadata rerankResults,
                                totalCandidates = candidatesFound (mq_metadata mmrResults),
                                pm_mmrResults = length (mq_results mmrResults),
                                pm_finalResults = length (rr_results rerankResults),
                                pm_avgRerankScore =
                                  avgRerankScore (rm_stats (rr_metadata rerankResults)),
                                pm_reorderingRate =
                                  reorderingRate (rm_stats (rr_metadata rerankResults)),
                                pm_parameters =
                                  \<lparr>p_topK = orDefault (o_topK options) defaultTopK,
                                   p_finalK = orDefault (o_finalK options) defaultFinalK,
                                   p_rerankTopN = Some rerankTopN,
                                   p_lambda = orDefault (o_lambda options) defaultLambda,
                                   p_threshold = orDefault (o_threshold options) defaultThreshold\<rparr>\<rparr>\<rparr>)))"

section \<open>Reference notions for the properties\<close>







text \<open>
  The first element of a non-empty list \<open>b # xs\<close> that reaches the maximum of \<open>f\<close>, and
  the statement that \<open>m\<close> is that element: it sits at an index before which every value
  of \<open>f\<close> is strictly smaller, and no value of \<open>f\<close> in the list is larger.
\<close>

fun argmaxFirst :: "('a \<Rightarrow> real) \<Rightarrow> 'a \<Rightarrow> 'a list \<Rightarrow> 'a" where
  "argmaxFirst f b [] = b"
| "argmaxFirst f b (x # xs) = (let m = argmaxFirst f x xs in if f b < f m then m else b)"

definition firstMaximum :: "('a \<Rightarrow> real) \<Rightarrow> 'a list \<Rightarrow> 'a \<Rightarrow> bool" where
  "firstMaximum f xs m =
     (\<exists>i<length xs. xs ! i = m \<and> (\<forall>j<length xs. f (xs ! j) \<le> f m) \<and> (\<forall>j<i. f (xs ! j) < f m))"










section \<open>Concrete inputs\<close>

text \<open>
  A row as \<open>retrieveTopKCandidates\<close> hands it to \<open>applyMMR\<close>: the columns of the
  similarity search and the embedding (or \<open>null\<close>). Used for the concrete instances below.
\<close>

definition exampleChunk :: "string \<Rightarrow> real \<Rightarrow> real list option \<Rightarrow> chunk" where
  "exampleChunk i sim emb =
     \<lparr>id' = i, content = ''content of '' @ i, text' = [], source = ''doc.md'', title = ''Doc'',
      section' = ''intro'', position = 0, similarity = sim, embedding = emb,
      queryEmbedding = None, mmrScore = None, rank = None, metadata = None,
      retrievalMethod = None, rerankScore = None, rerankRank = None, originalRank = None,
      rankImprovement = None, rrfScore = None, denseRank = None, sparseRank = None\<rparr>"



text \<open>
  A configuration for concrete runs: the search finds two chunks, and every call of the
  reranker throws the given message.
\<close>

definition exampleServices :: "string \<Rightarrow> services" where
  "exampleServices failure =
     \<lparr>generateEmbedding = (\<lambda>input. Inr [1, 0]),
      search_similar_documents =
        (\<lambda>args. Inr [exampleChunk ''a'' (9/10) None, exampleChunk ''b'' (8/10) None]),
      cohereClient = (\<lambda>attempt request. Inl failure),
      rerankingService = RerankingService\<rparr>"

definition noOptions :: retrievalOptions where
  "noOptions =
     \<lparr>o_topK = None, o_finalK = None, o_rerankTopN = None, o_lambda = None, o_threshold = None,
      o_source = None, o_section = None, o_includeMetadata = None, o_useReranking = None\<rparr>"

section \<open>Properties of applyMMR\<close>







lemma argmaxFirst_ge: "f b \<le> f (argmaxFirst f b xs)"
  by (cases xs) (auto simp: Let_def)

lemma fold_argmaxFirst:
  "fold (\<lambda>current best. if f current > f best then current else best) xs b = argmaxFirst f b xs"
proof (induction xs arbitrary: b)
  case Nil
  then show ?case by simp
next
  case (Cons x xs)
  show ?case
  proof (cases "f b < f x")
    case True
    then have "f b < f (argmaxFirst f x xs)"
      using argmaxFirst_ge [of f x xs] by linarith
    with True show ?thesis by (simp add: Cons.IH)
  next
    case False
    have "argmaxFirst f b xs =
          (if f b < f (argmaxFirst f x xs) then argmaxFirst f x xs else b)"
    proof (cases xs)
      case Nil
      with False show ?thesis by simp
    next
      case (Cons y ys)
      with False show ?thesis by (auto simp: Let_def)
    qed
    with False show ?thesis by (simp add: Cons.IH)
  qed
qed

lemma firstMaximumI:
  "i < length xs \<Longrightarrow> xs ! i = m \<Longrightarrow> \<forall>j<length xs. f (xs ! j) \<le> f m \<Longrightarrow>
   \<forall>j<i. f (xs ! j) < f m \<Longrightarrow> firstMaximum f xs m"
  unfolding firstMaximum_def by blast

lemma argmaxFirst_firstMaximum: "firstMaximum f (b # xs) (argmaxFirst f b xs)"
proof (induction xs arbitrary: b)
  case Nil
  then show ?case by (simp add: firstMaximum_def)
next
  case (Cons x xs)
  let ?m = "argmaxFirst f x xs"
  from Cons.IH [of x] obtain i where i: "i < length (x # xs)" "(x # xs) ! i = ?m"
    "\<forall>j<length (x # xs). f ((x # xs) ! j) \<le> f ?m" "\<forall>j<i. f ((x # xs) ! j) < f ?m"
    unfolding firstMaximum_def by blast
  show ?case
  proof (cases "f b < f ?m")
    case True
    then have eq: "argmaxFirst f b (x # xs) = ?m" by (simp add: Let_def)
    have a: "\<forall>j<length (b # x # xs). f ((b # x # xs) ! j) \<le> f ?m"
    proof (intro allI impI)
      fix j assume "j < length (b # x # xs)"
      then show "f ((b # x # xs) ! j) \<le> f ?m"
        using i(3) True by (cases j) auto
    qed
    have b: "\<forall>j<Suc i. f ((b # x # xs) ! j) < f ?m"
    proof (intro allI impI)
      fix j assume "j < Suc i"
      then show "f ((b # x # xs) ! j) < f ?m"
        using i(4) True by (cases j) auto
    qed
    have c: "Suc i < length (b # x # xs)" and d: "(b # x # xs) ! Suc i = ?m"
      using i(1,2) by simp_all
    show ?thesis
      unfolding eq by (rule firstMaximumI [OF c d a b])
  next
    case False
    then have eq: "argmaxFirst f b (x # xs) = b" by (simp add: Let_def)
    have a: "\<forall>j<length (b # x # xs). f ((b # x # xs) ! j) \<le> f b"
    proof (intro allI impI)
      fix j assume "j < length (b # x # xs)"
      then show "f ((b # x # xs) ! j) \<le> f b"
        using i(3) False by (cases j) (auto intro: order_trans [of _ "f ?m"])
    qed
    show ?thesis
      unfolding eq by (rule firstMaximumI [where i = 0]) (use a in simp_all)
  qed
qed



lemma mostRelevantOf_Cons:
  "mostRelevantOf (c # cs) = Inr (argmaxFirst similarity c cs)"
  by (simp add: mostRelevantOf_def fold_argmaxFirst)






lemma mmrLoop_prefix:
  "mmrLoop lambda finalK selected remaining = Inr r \<Longrightarrow> prefix selected r"
proof (induction lambda finalK selected remaining rule: mmrLoop.induct)
  case (1 lambda finalK selected remaining)
  show ?case
  proof (cases "int (length selected) < finalK \<and> 0 < length remaining")
    case False
    then show ?thesis
      using "1.prems" by (auto simp: mmrLoop.simps [of lambda finalK selected remaining])
  next
    case True
    show ?thesis
    proof (cases "selectBest lambda selected remaining (None, NegInf)")
      case (Inl err)
      then show ?thesis
        using "1.prems" True by (simp add: mmrLoop.simps [of lambda finalK selected remaining])
    next
      case (Inr best)
      obtain bc bs where best: "best = (bc, bs)" by (cases best)
      show ?thesis
      proof (cases bc)
        case None
        then show ?thesis
          using "1.prems" True Inr best
          by (simp add: mmrLoop.simps [of lambda finalK selected remaining])
      next
        case (Some c)
        have "mmrLoop lambda finalK (selected @ [c\<lparr>mmrScore := Some bs\<rparr>]) (remove1 c remaining) = Inr r"
          using "1.prems" True Inr best Some
          by (simp add: mmrLoop.simps [of lambda finalK selected remaining])
        from "1.IH" [OF True Inr best [symmetric] Some this]
        show ?thesis by (rule append_prefixD)
      qed
    qed
  qed
qed

lemma maxSimilarityLoop_error:
  "maxSimilarityLoop candidate selected m = Inl err \<Longrightarrow>
   err = ''Embeddings must have the same dimensions''"
  by (induction selected arbitrary: m)
     (auto simp: cosineSimilarity_def split: option.splits sum.splits if_splits prod.splits)

lemma selectBest_error:
  "selectBest lambda selected remaining best = Inl err \<Longrightarrow>
   err = ''Embeddings must have the same dimensions''"
proof (induction remaining arbitrary: best)
  case Nil
  then show ?case by simp
next
  case (Cons c remaining)
  obtain b s where best: "best = (b, s)" by (cases best)
  show ?case
  proof (cases "mmrScoreOf lambda selected c")
    case (Inl e)
    then have "e = ''Embeddings must have the same dimensions''"
      by (auto simp: mmrScoreOf_def split: sum.splits dest: maxSimilarityLoop_error)
    with Cons.prems Inl best show ?thesis by simp
  next
    case (Inr sc)
    with Cons.prems best show ?thesis
      by (auto split: if_splits dest: Cons.IH)
  qed
qed

lemma mmrLoop_error:
  "mmrLoop lambda finalK selected remaining = Inl err \<Longrightarrow>
   err = ''Embeddings must have the same dimensions''"
proof (induction lambda finalK selected remaining rule: mmrLoop.induct)
  case (1 lambda finalK selected remaining)
  show ?case
  proof (cases "int (length selected) < finalK \<and> 0 < length remaining")
    case False
    then show ?thesis
      using "1.prems" by (auto simp: mmrLoop.simps [of lambda finalK selected remaining])
  next
    case True
    show ?thesis
    proof (cases "selectBest lambda selected remaining (None, NegInf)")
      case (Inl e)
      then show ?thesis
        using "1.prems" True selectBest_error [OF Inl]
        by (simp add: mmrLoop.simps [of lambda finalK selected remaining])
    next
      case (Inr best)
      obtain bc bs where best: "best = (bc, bs)" by (cases best)
      show ?thesis
      proof (cases bc)
        case None
        then show ?thesis
          using "1.prems" True Inr best
          by (simp add: mmrLoop.simps [of lambda finalK selected remaining])
      next
        case (Some c)
        have "mmrLoop lambda finalK (selected @ [c\<lparr>mmrScore := Some bs\<rparr>]) (remove1 c remaining) = Inl err"
          using "1.prems" True Inr best Some
          by (simp add: mmrLoop.simps [of lambda finalK selected remaining])
        from "1.IH" [OF True Inr best [symmetric] Some this]
        show ?thesis .
      qed
    qed
  qed
qed

text \<open>
  \<^bold>\<open>C5\<close> (short-circuit). When the candidate list has at most \<open>finalK\<close> elements,
  \<open>applyMMR\<close> returns exactly the input list: the same chunks, unchanged, in the input
  order. No similarity is computed, so no exception can occur on this path.
\<close>

theorem applyMMR_short_circuit:
  assumes "int (length candidates) \<le> finalK"
  shows "applyMMR queryEmb candidates finalK lambda = Inr candidates"
proof -
  from assms show ?thesis
    unfolding applyMMR_def by (simp only: if_True)
qed

theorem applyMMR_short_circuit_witness:
  "applyMMR [1, 0]
     [exampleChunk ''a'' (8/10) (Some [1, 0]), exampleChunk ''b'' (9/10) (Some [0, 1])] 2 (7/10)
   = Inr [exampleChunk ''a'' (8/10) (Some [1, 0]), exampleChunk ''b'' (9/10) (Some [0, 1])]"
  using applyMMR_short_circuit
    [of "[exampleChunk ''a'' (8/10) (Some [1, 0]), exampleChunk ''b'' (9/10) (Some [0, 1])]"
        2 "[1, 0]" "7/10"]
  by simp




text \<open>
  The hypothesis on the embeddings is needed. A zero vector makes \<open>cosineSimilarity\<close>
  return \<open>NaN\<close>, the score of the candidate is \<open>NaN\<close>, no comparison with it holds,
  and a round in which no candidate can be chosen leaves the loop early; embeddings of
  different lengths make \<open>cosineSimilarity\<close> throw.
\<close>

lemma applyMMR_zero_vector_stops_early:
  "applyMMR [1, 0]
     [exampleChunk ''a'' (9/10) (Some [1, 0]), exampleChunk ''b'' (8/10) (Some [0, 0]),
      exampleChunk ''c'' (7/10) (Some [0, 0])] 2 (7/10) =
   Inr [exampleChunk ''a'' (9/10) (Some [1, 0])]"
  by (simp add: applyMMR_def mostRelevantOf_def mmrLoop.simps mmrScoreOf_def
        cosineSimilarity_def exampleChunk_def js_sub_def)

lemma applyMMR_dimension_mismatch_throws:
  "applyMMR [1, 0]
     [exampleChunk ''a'' (9/10) (Some [1, 0]), exampleChunk ''b'' (8/10) (Some [1, 0, 0]),
      exampleChunk ''c'' (7/10) None] 2 (7/10) =
   Inl ''Embeddings must have the same dimensions''"
  by (simp add: applyMMR_def mostRelevantOf_def mmrLoop.simps mmrScoreOf_def
        cosineSimilarity_def exampleChunk_def js_sub_def)

text \<open>
  The example of the relevance/diversity balance: \<open>B\<close> duplicates \<open>A\<close> and \<open>C\<close> is
  orthogonal to it. With \<open>lambda = 1\<close> the second pick is \<open>B\<close>, with \<open>lambda = 0.3\<close>
  it is \<open>C\<close>.
\<close>

lemma applyMMR_lambda_example:
  "applyMMR [1, 0]
     [exampleChunk ''A'' (9/10) (Some [1, 0]), exampleChunk ''B'' (85/100) (Some [1, 0]),
      exampleChunk ''C'' (6/10) (Some [0, 1])] 2 1 =
   Inr [exampleChunk ''A'' (9/10) (Some [1, 0]),
        (exampleChunk ''B'' (85/100) (Some [1, 0]))\<lparr>mmrScore := Some (Num (85/100))\<rparr>]"
  "applyMMR [1, 0]
     [exampleChunk ''A'' (9/10) (Some [1, 0]), exampleChunk ''B'' (85/100) (Some [1, 0]),
      exampleChunk ''C'' (6/10) (Some [0, 1])] 2 (3/10) =
   Inr [exampleChunk ''A'' (9/10) (Some [1, 0]),
        (exampleChunk ''C'' (6/10) (Some [0, 1]))\<lparr>mmrScore := Some (Num (18/100))\<rparr>]"
  by (simp_all add: applyMMR_def mostRelevantOf_def mmrLoop.simps mmrScoreOf_def
        cosineSimilarity_def exampleChunk_def js_sub_def)

text \<open>
  \<^bold>\<open>C6\<close> (top pick). With \<open>1 \<le> finalK < |candidates|\<close>, whenever \<open>applyMMR\<close> returns
  a list, that list is non-empty and its first element is the candidate at the first
  index of the input that reaches the maximal similarity. The only other outcome is
  the exception of \<open>cosineSimilarity\<close> on embeddings of different lengths.
\<close>

theorem applyMMR_top_pick:
  assumes "1 \<le> finalK" and "finalK < int (length candidates)"
  shows "case applyMMR queryEmb candidates finalK lambda of
           Inr r \<Rightarrow> r \<noteq> [] \<and> firstMaximum similarity candidates (hd r)
         | Inl err \<Rightarrow> err = ''Embeddings must have the same dimensions''"
proof -
  obtain c cs where cs: "candidates = c # cs"
    using assms by (cases candidates) auto
  let ?m = "argmaxFirst similarity c cs"
  have eq: "applyMMR queryEmb candidates finalK lambda =
            mmrLoop lambda finalK [?m] (remove1 ?m candidates)"
    using assms(2) by (simp add: applyMMR_def cs mostRelevantOf_Cons)
  show ?thesis
  proof (cases "mmrLoop lambda finalK [?m] (remove1 ?m candidates)")
    case (Inl err)
    then show ?thesis using eq mmrLoop_error [OF Inl] by simp
  next
    case (Inr r)
    from mmrLoop_prefix [OF Inr] obtain ys where "r = [?m] @ ys"
      by (auto simp: prefix_def)
    then have "r \<noteq> []" "hd r = ?m" by simp_all
    moreover have "firstMaximum similarity candidates ?m"
      unfolding cs by (rule argmaxFirst_firstMaximum)
    ultimately show ?thesis using eq Inr by simp
  qed
qed

theorem applyMMR_top_pick_witness:
  "case applyMMR [1, 0]
         [exampleChunk ''a'' (8/10) (Some [1, 0]), exampleChunk ''b'' (9/10) (Some [0, 1]),
          exampleChunk ''c'' (9/10) None] 2 (7/10) of
     Inr r \<Rightarrow> r \<noteq> [] \<and> hd r = exampleChunk ''b'' (9/10) (Some [0, 1]) \<and>
              firstMaximum similarity
                [exampleChunk ''a'' (8/10) (Some [1, 0]), exampleChunk ''b'' (9/10) (Some [0, 1]),
                 exampleChunk ''c'' (9/10) None] (hd r)
   | Inl err \<Rightarrow> False"
  using applyMMR_top_pick
    [of 2 "[exampleChunk ''a'' (8/10) (Some [1, 0]), exampleChunk ''b'' (9/10) (Some [0, 1]),
          exampleChunk ''c'' (9/10) None]" "[1, 0]" "7/10"]
  by (simp add: applyMMR_def mostRelevantOf_def mmrLoop.simps mmrScoreOf_def
        cosineSimilarity_def exampleChunk_def js_sub_def)









section \<open>Properties of calculateDiversityScore\<close>






section \<open>Properties of reciprocalRankFusion\<close>















text \<open>
  A run of the fusion: scores, ranks and the order of the output.
\<close>

lemma rrf_example:
  "map (\<lambda>c. (id' c, rrfScore c, denseRank c, sparseRank c))
     (reciprocalRankFusion
             [exampleChunk ''b'' (8/10) None, exampleChunk ''a'' (9/10) None]
             [exampleChunk ''a'' (9/10) None, exampleChunk ''c'' (8/10) None] (7/10) (3/10) 60) =
   [(''a'', Some (7/620 + 3/610), Some 2, Some 1), (''b'', Some (7/610), Some 1, None),
    (''c'', Some (3/620), None, Some 2)]"
  by (simp add: reciprocalRankFusion_def exampleChunk_def rrfValue_def Let_def)

section \<open>Properties of the call with retries\<close>


lemma callCohereRerank_retry:
  "cohere attempt (rerankRequestOf svc query documents options) = Inl message \<Longrightarrow>
   attempt < retryAttempts svc \<Longrightarrow>
   callCohereRerank svc cohere query documents options attempt trace =
     callCohereRerank svc cohere query documents options (attempt + 1)
       (trace @ [ApiCall attempt, Delay (retryDelay svc * attempt)])"
  by (simp add: callCohereRerank.simps [of svc cohere query documents options attempt trace])

lemma callCohereRerank_give_up:
  "cohere attempt (rerankRequestOf svc query documents options) = Inl message \<Longrightarrow>
   \<not> attempt < retryAttempts svc \<Longrightarrow>
   callCohereRerank svc cohere query documents options attempt trace =
     (trace @ [ApiCall attempt], Inl (cohereError message))"
  by (simp add: callCohereRerank.simps [of svc cohere query documents options attempt trace])





section \<open>Properties of the enrichment stages\<close>






lemma RerankingService_fields:
  "model RerankingService = ''rerank-english-v3.0''" "defaultTopN RerankingService = 5"
  "maxChunkLength RerankingService = 4096" "retryAttempts RerankingService = 3"
  "retryDelay RerankingService = 1000"
  by (simp_all add: RerankingService_def)



section \<open>Properties of the complete pipeline\<close>

lemma callCohereRerank_always_failing:
  "\<forall>attempt request. \<exists>message. cohere attempt request = Inl message \<Longrightarrow>
   \<exists>trace' message. callCohereRerank svc cohere query documents options attempt trace =
                     (trace', Inl (cohereError message))"
proof (induction svc cohere query documents options attempt trace rule: callCohereRerank.induct)
  case (1 svc cohere query documents options attempt trace)
  from "1.prems" obtain message where
    m: "cohere attempt (rerankRequestOf svc query documents options) = Inl message"
    by blast
  show ?case
  proof (cases "attempt < retryAttempts svc")
    case True
    from "1.IH" [OF m True "1.prems"] show ?thesis
      using m True
      by (simp add: callCohereRerank_retry [of cohere attempt svc query documents options message trace])
  next
    case False
    then show ?thesis
      using m
      by (auto simp: callCohereRerank_give_up [of cohere attempt svc query documents options message trace])
  qed
qed

lemma rerankChunks_always_failing:
  assumes "\<forall>attempt request. \<exists>message. cohere attempt request = Inl message"
  shows "\<exists>trace message. rerankChunks svc cohere query chunks options =
                          (trace, Inl (''Reranking failed: '' @ message))"
proof (cases "validateInputs query chunks (orDefault (ro_topN options) (defaultTopN svc))")
  case (Some err)
  then show ?thesis by (simp add: rerankChunks_def Let_def)
next
  case None
  from callCohereRerank_always_failing
         [OF assms, of svc query "prepareDocuments svc chunks (orDefault (ro_truncateChunks options) True)"
            "\<lparr>co_model = Some (orDefault (ro_model options) (model svc)),
              co_topN = Some (min (orDefault (ro_topN options) (defaultTopN svc)) (int (length chunks))),
              co_returnDocuments = Some True\<rparr>" 1 "[]"]
  obtain trace message where
    "callCohereRerank svc cohere query
       (prepareDocuments svc chunks (orDefault (ro_truncateChunks options) True))
       \<lparr>co_model = Some (orDefault (ro_model options) (model svc)),
        co_topN = Some (min (orDefault (ro_topN options) (defaultTopN svc)) (int (length chunks))),
        co_returnDocuments = Some True\<rparr> 1 [] = (trace, Inl (cohereError message))"
    by blast
  with None show ?thesis by (simp add: rerankChunks_def Let_def)
qed

text \<open>
  \<^bold>\<open>C1\<close> (failure of the reranker), as amended. When every call of the reranker throws,
  the complete pipeline ends in one of three ways: a failure of the MMR stage is raised
  as \<open>Complete retrieval failed: ...\<close>; with reranking switched off, or no MMR result,
  the MMR result is returned unchanged; in every other case the pipeline raises
  \<open>Complete retrieval failed: Reranking failed: ...\<close>. The failure of the reranker
  reaches the caller as an error; no result with a degradation marker is produced.
\<close>

theorem pipeline_reranker_failure:
  assumes "\<forall>attempt request. \<exists>message. cohereClient env attempt request = Inl message"
  shows "case retrieveWithMMR env query (mmrStageOptions options) of
           Inl err \<Rightarrow>
             snd (retrieveWithMMRAndRerank env query options) =
               Inl (''Complete retrieval failed: '' @ err)
         | Inr mmrResults \<Rightarrow>
             if o_useReranking options = Some False \<or> mq_results mmrResults = []
             then snd (retrieveWithMMRAndRerank env query options) =
                    Inr (unchangedMmrResult mmrResults)
             else \<exists>message. snd (retrieveWithMMRAndRerank env query options) =
                    Inl (''Complete retrieval failed: Reranking failed: '' @ message)"
proof (cases "retrieveWithMMR env query (mmrStageOptions options)")
  case (Inl err)
  then show ?thesis by (simp add: retrieveWithMMRAndRerank_def Let_def)
next
  case (Inr mmrResults)
  show ?thesis
  proof (cases "o_useReranking options = Some False \<or> mq_results mmrResults = []")
    case True
    then have "\<not> orDefault (o_useReranking options) True \<or> length (mq_results mmrResults) = 0"
      by (auto simp: orDefault_def)
    with Inr True show ?thesis by (simp add: retrieveWithMMRAndRerank_def Let_def)
  next
    case False
    then have go: "\<not> (\<not> orDefault (o_useReranking options) True \<or> length (mq_results mmrResults) = 0)"
      by (auto simp: orDefault_def split: option.splits)
    from rerankChunks_always_failing
           [OF assms, of "rerankingService env" query "mq_results mmrResults"
              "\<lparr>ro_topN = Some (min (orDefault (o_rerankTopN options) 5)
                             (int (length (mq_results mmrResults)))),
                ro_model = None, ro_includeScores = None,
                ro_includeOriginalRank = Some True, ro_truncateChunks = None\<rparr>"]
    obtain trace message where
      "rerankChunks (rerankingService env) (cohereClient env) query (mq_results mmrResults)
         \<lparr>ro_topN = Some (min (orDefault (o_rerankTopN options) 5)
                             (int (length (mq_results mmrResults)))),
          ro_model = None, ro_includeScores = None,
          ro_includeOriginalRank = Some True, ro_truncateChunks = None\<rparr> =
       (trace, Inl (''Reranking failed: '' @ message))"
      by blast
    with Inr False go show ?thesis
      by (simp add: retrieveWithMMRAndRerank_def Let_def)
  qed
qed

lemma example_mmr_stage:
  "retrieveWithMMR (exampleServices failure) ''what is mmr'' (mmrStageOptions noOptions) =
   Inr \<lparr>mq_query = ''what is mmr'',
        mq_results = formatResults
          [(exampleChunk ''a'' (9/10) None)\<lparr>queryEmbedding := Some [1, 0]\<rparr>,
           (exampleChunk ''b'' (8/10) None)\<lparr>queryEmbedding := Some [1, 0]\<rparr>] False,
        mq_metadata =
          \<lparr>candidatesFound = 2, mm_finalResults = 2, mmrApplied = True,
           mm_parameters = \<lparr>p_topK = 50, p_finalK = 10, p_rerankTopN = None,
                            p_lambda = 7/10, p_threshold = 3/10\<rparr>,
           avgSimilarity = Some (17/20), diversityScore = Some (Num 1)\<rparr>\<rparr>"
  by (simp add: retrieveWithMMR_def mmrStageOptions_def noOptions_def orDefault_def
        exampleServices_def retrieveTopKCandidates_def defaultTopK_def defaultFinalK_def
        defaultLambda_def defaultThreshold_def applyMMR_def calculateDiversityScore_def
        calculateAverageSimilarity_def exampleChunk_def js_sub_def Let_def)

theorem pipeline_reranker_failure_witness:
  "snd (retrieveWithMMRAndRerank (exampleServices ''503 service unavailable'')
          ''what is mmr'' noOptions) =
   Inl ''Complete retrieval failed: Reranking failed: Cohere API error: 503 service unavailable''"
proof -
  have "\<forall>attempt request. \<exists>message.
          cohereClient (exampleServices ''503 service unavailable'') attempt request = Inl message"
    by (simp add: exampleServices_def)
  from pipeline_reranker_failure [OF this, of "''what is mmr''" noOptions,
         unfolded example_mmr_stage]
  obtain message where
    m: "snd (retrieveWithMMRAndRerank (exampleServices ''503 service unavailable'')
               ''what is mmr'' noOptions) =
        Inl (''Complete retrieval failed: Reranking failed: '' @ message)"
    by (auto simp: formatResults_def noOptions_def)
  have "snd (retrieveWithMMRAndRerank (exampleServices ''503 service unavailable'')
               ''what is mmr'' noOptions) =
        Inl ''Complete retrieval failed: Reranking failed: Cohere API error: 503 service unavailable''"
    by (simp add: retrieveWithMMRAndRerank_def example_mmr_stage orDefault_def formatResults_def
          rerankChunks_def validateInputs_def trim_def isWhitespace_def exampleChunk_def
          prepareDocuments_def RerankingService_fields callCohereRerank.simps rerankRequestOf_def
          cohereError_def stringIncludes_def sublist_code prefix_code Let_def)
       (simp add: noOptions_def exampleServices_def callCohereRerank.simps rerankRequestOf_def
          cohereError_def stringIncludes_def sublist_code prefix_code RerankingService_fields)
  with m show ?thesis by simp
qed

text \<open>
  The claim as stated fails: the MMR stage finds the chunks \<open>a\<close> and \<open>b\<close>, the reranker
  is tried three times, and the pipeline then raises an error instead of returning the
  two chunks.
\<close>

theorem pipeline_reranker_failure_counterexample:
  "map id' (case retrieveWithMMR (exampleServices ''429 rate limit reached'') ''what is mmr''
                   (mmrStageOptions noOptions) of
              Inr mmrResults \<Rightarrow> mq_results mmrResults
            | Inl err \<Rightarrow> []) = [''a'', ''b''] \<and>
   retrieveWithMMRAndRerank (exampleServices ''429 rate limit reached'') ''what is mmr'' noOptions =
     ([ApiCall 1, Delay 1000, ApiCall 2, Delay 2000, ApiCall 3],
      Inl ''Complete retrieval failed: Reranking failed: Cohere API rate limit exceeded. Please try again later.'')"
  by (simp add: retrieveWithMMRAndRerank_def example_mmr_stage orDefault_def formatResults_def
          rerankChunks_def validateInputs_def trim_def isWhitespace_def exampleChunk_def
          prepareDocuments_def RerankingService_fields callCohereRerank.simps rerankRequestOf_def
          cohereError_def stringIncludes_def sublist_code prefix_code Let_def)
     (simp add: noOptions_def exampleServices_def callCohereRerank.simps rerankRequestOf_def
          cohereError_def stringIncludes_def sublist_code prefix_code RerankingService_fields)

end
